theory Spec2Isabelle
  imports Main
begin

section \<open>JavaScript values and objects\<close>

text \<open>
  The payloads that reach the handlers of \<^verbatim>\<open>socketio-cloud-server.js\<close> are decoded
  messages.  Their fields are modelled as primitive JavaScript values; numbers are taken
  to be integers (no fractions, no NaN).
\<close>

datatype jsval = JUndefined | JNull | JBool bool | JNum int | JStr string

text \<open>JavaScript's ToBoolean on these values.\<close>

fun truthy :: "jsval \<Rightarrow> bool" where
  "truthy JUndefined = False"
| "truthy JNull = False"
| "truthy (JBool b) = b"
| "truthy (JNum n) = (n \<noteq> 0)"
| "truthy (JStr s) = (s \<noteq> [])"

text \<open>The operator \<^verbatim>\<open>a || b\<close>: the left operand when it is truthy, else the right one.\<close>

definition js_or :: "jsval \<Rightarrow> jsval \<Rightarrow> jsval" where
  "js_or a b = (if truthy a then a else b)"

text \<open>
  A JavaScript \<^verbatim>\<open>Map\<close> is an association list in insertion order: \<^verbatim>\<open>set\<close> on a key
  that is present keeps the key's position, \<^verbatim>\<open>set\<close> on a new key appends, \<^verbatim>\<open>get\<close> of
  a missing key is \<^verbatim>\<open>undefined\<close> (here \<open>None\<close>).  The keys of a Map are distinct.
\<close>

fun Map_set :: "('k \<times> 'v) list \<Rightarrow> 'k \<Rightarrow> 'v \<Rightarrow> ('k \<times> 'v) list" where
  "Map_set [] k v = [(k, v)]"
| "Map_set ((k', v') # m) k v =
     (if k' = k then (k, v) # m else (k', v') # Map_set m k v)"

fun Map_get :: "('k \<times> 'v) list \<Rightarrow> 'k \<Rightarrow> 'v option" where
  "Map_get [] k = None"
| "Map_get ((k', v') # m) k = (if k' = k then Some v' else Map_get m k)"

definition Map_has :: "('k \<times> 'v) list \<Rightarrow> 'k \<Rightarrow> bool" where
  "Map_has m k = (Map_get m k \<noteq> None)"

fun Map_delete :: "('k \<times> 'v) list \<Rightarrow> 'k \<Rightarrow> ('k \<times> 'v) list" where
  "Map_delete [] k = []"
| "Map_delete ((k', v') # m) k =
     (if k' = k then Map_delete m k else (k', v') # Map_delete m k)"

definition Map_size :: "('k \<times> 'v) list \<Rightarrow> nat" where
  "Map_size m = length m"

definition Map_values :: "('k \<times> 'v) list \<Rightarrow> 'v list" where
  "Map_values m = map snd m"

definition Map_keys :: "('k \<times> 'v) list \<Rightarrow> 'k list" where
  "Map_keys m = map fst m"

text \<open>
  A plain object (a payload, an event body) is a list of properties in the same way;
  reading a property that is absent gives \<^verbatim>\<open>undefined\<close>.
\<close>

type_synonym obj = "(string \<times> jsval) list"

definition get_prop :: "obj \<Rightarrow> string \<Rightarrow> jsval" where
  "get_prop d k = (case Map_get d k of None \<Rightarrow> JUndefined | Some v \<Rightarrow> v)"

text \<open>
  The argument \<^verbatim>\<open>data\<close> of a handler is what the peer sent with the event: an object,
  or nothing at all (\<^verbatim>\<open>undefined\<close>).  Reading a property of \<^verbatim>\<open>undefined\<close> raises a
  TypeError; spreading \<^verbatim>\<open>undefined\<close> into an object literal adds no property.
\<close>

datatype jsdata = DUndefined | DObject obj

datatype error = TypeError | EmitError

fun spread :: "jsdata \<Rightarrow> obj" where
  "spread DUndefined = []"
| "spread (DObject d) = d"

section \<open>The server's state and what it does to the outside\<close>

text \<open>
  Times are milliseconds (\<^verbatim>\<open>Date.now()\<close>, \<^verbatim>\<open>new Date()\<close>).  A handler may read the
  clock several times; \<open>clk n\<close> is what its \<open>n\<close>-th reading returns (counted from 0).
\<close>

type_synonym clock = "nat \<Rightarrow> int"

text \<open>
  An entry of \<^verbatim>\<open>this.gateways\<close>.  The field \<^verbatim>\<open>id\<close> is named \<open>gateway_id\<close> here, and
  the connection object \<^verbatim>\<open>socket\<close> is represented by its \<^verbatim>\<open>socket.id\<close>.
\<close>

record gateway =
  gateway_id :: string
  siteName :: jsval
  connectedAt :: int
  socket :: string
  deviceCount :: jsval
  lastHeartbeat :: int

text \<open>An entry of \<^verbatim>\<open>this.rtmpStreams\<close> (its field \<^verbatim>\<open>id\<close> is named \<open>session_id\<close>).\<close>

record stream =
  session_id :: string
  streamPath :: string
  startTime :: int
  active :: bool

record server =
  gateways :: "(string \<times> gateway) list"
  rtmpStreams :: "(string \<times> stream) list"

text \<open>The constructor leaves both maps empty.\<close>

definition constructor :: server where
  "constructor = \<lparr>gateways = [], rtmpStreams = []\<rparr>"

text \<open>
  The lines written by \<^verbatim>\<open>console.log\<close>, one constructor for each place of the source
  that is modelled, with the values interpolated into the line.
\<close>

datatype logline =
    LogPrePublish string
  | LogDonePublish string
  | LogRegister jsval
  | LogDisconnect jsval
  | LogBroadcast string nat

text \<open>
  \<open>IoEmit e body\<close> is \<^verbatim>\<open>this.io.emit(e, body)\<close> (to every connected party);
  \<open>SocketEmit c e body\<close> is \<^verbatim>\<open>socket.emit(e, body)\<close> on the connection \<open>c\<close>.
\<close>

datatype effect =
    ConsoleLog logline
  | IoEmit string obj
  | SocketEmit string string obj

text \<open>
  What one call did: the state it left, its effects in order, and how it ended
  (\<open>Inr v\<close>: it returned \<open>v\<close>; \<open>Inl e\<close>: it raised \<open>e\<close>).
\<close>

record run =
  state :: server
  out :: "effect list"
  completion :: "error + jsval"

section \<open>The stream tracker (setupRTMPServer)\<close>

text \<open>
  \<^verbatim>\<open>String.prototype.split\<close> with a one-character separator: the pieces between the
  separators, in order; the result is never empty (\<^verbatim>\<open>"".split('/')\<close> is \<^verbatim>\<open>[""]\<close>).
\<close>

fun split :: "char \<Rightarrow> string \<Rightarrow> string list" where
  "split sep [] = [[]]"
| "split sep (c # cs) =
     (let r = split sep cs in if c = sep then [] # r else (c # hd r) # tl r)"

text \<open>\<^verbatim>\<open>StreamPath.split('/').pop()\<close>: the last piece.\<close>

definition streamKey :: "string \<Rightarrow> string" where
  "streamKey StreamPath = last (split (CHR ''/'') StreamPath)"

definition prePublish :: "server \<Rightarrow> clock \<Rightarrow> string \<Rightarrow> string \<Rightarrow> run" where
  "prePublish s clk i StreamPath =
     (let key = streamKey StreamPath in
      \<lparr>state = s\<lparr>rtmpStreams :=
                 Map_set (rtmpStreams s) key
                   \<lparr>session_id = i, streamPath = StreamPath, startTime = clk 0, active = True\<rparr>\<rparr>,
       out = [ConsoleLog (LogPrePublish StreamPath),
              IoEmit ''stream-started''
                [(''streamKey'', JStr key), (''streamPath'', JStr StreamPath),
                 (''timestamp'', JNum (clk 1))]],
       completion = Inr JUndefined\<rparr>)"

definition donePublish :: "server \<Rightarrow> clock \<Rightarrow> string \<Rightarrow> string \<Rightarrow> run" where
  "donePublish s clk i StreamPath =
     (let key = streamKey StreamPath in
      \<lparr>state = s\<lparr>rtmpStreams := Map_delete (rtmpStreams s) key\<rparr>,
       out = [ConsoleLog (LogDonePublish StreamPath),
              IoEmit ''stream-ended''
                [(''streamKey'', JStr key), (''timestamp'', JNum (clk 0))]],
       completion = Inr JUndefined\<rparr>)"

section \<open>The gateway registry (setupSocketHandlers)\<close>

text \<open>The default site name of the source, as its UTF-8 bytes.\<close>

definition unnamed_site :: string where
  "unnamed_site = map char_of
     [0xE6, 0x9C, 0xAA, 0xE5, 0x91, 0xBD, 0xE5, 0x90, 0x8D,
      0xE5, 0xB7, 0xA5, 0xE5, 0x9C, 0xB0 :: nat]"

text \<open>
  The handler of \<^verbatim>\<open>register-gateway\<close> on the connection \<open>sock\<close>.  The object literal is
  evaluated first, so a missing payload raises before the map is touched.
\<close>

definition register_gateway :: "server \<Rightarrow> clock \<Rightarrow> string \<Rightarrow> jsdata \<Rightarrow> run" where
  "register_gateway s clk sock data =
     (case data of
        DUndefined \<Rightarrow> \<lparr>state = s, out = [], completion = Inl TypeError\<rparr>
      | DObject d \<Rightarrow>
          \<lparr>state = s\<lparr>gateways :=
                     Map_set (gateways s) sock
                       \<lparr>gateway_id = sock,
                        siteName = js_or (get_prop d ''siteName'') (JStr unnamed_site),
                        connectedAt = clk 0,
                        socket = sock,
                        deviceCount = js_or (get_prop d ''deviceCount'') (JNum 0),
                        lastHeartbeat = clk 1\<rparr>\<rparr>,
           out = [ConsoleLog (LogRegister (get_prop d ''siteName'')),
                  IoEmit ''gateway-connected''
                    [(''siteName'', get_prop d ''siteName''),
                     (''deviceCount'', js_or (get_prop d ''deviceCount'') (JNum 0))]],
           completion = Inr JUndefined\<rparr>)"

text \<open>
  The handler of \<^verbatim>\<open>heartbeat\<close>.  The entry is an object that the map refers to, so the
  assignments to its fields are updates of the map at the same key.  With a missing
  payload the test of \<^verbatim>\<open>data.deviceCount\<close> raises after \<^verbatim>\<open>lastHeartbeat\<close> was set.
\<close>

definition heartbeat :: "server \<Rightarrow> clock \<Rightarrow> string \<Rightarrow> jsdata \<Rightarrow> run" where
  "heartbeat s clk sock data =
     (if Map_has (gateways s) sock then
        (case Map_get (gateways s) sock of
           None \<Rightarrow> \<lparr>state = s, out = [], completion = Inl TypeError\<rparr>
         | Some g \<Rightarrow>
             (let g1 = g\<lparr>lastHeartbeat := clk 0\<rparr>;
                  s1 = s\<lparr>gateways := Map_set (gateways s) sock g1\<rparr>
              in case data of
                   DUndefined \<Rightarrow> \<lparr>state = s1, out = [], completion = Inl TypeError\<rparr>
                 | DObject d \<Rightarrow>
                     (if get_prop d ''deviceCount'' \<noteq> JUndefined then
                        \<lparr>state = s\<lparr>gateways :=
                                   Map_set (gateways s) sock
                                     (g1\<lparr>deviceCount := get_prop d ''deviceCount''\<rparr>)\<rparr>,
                         out = [], completion = Inr JUndefined\<rparr>
                      else \<lparr>state = s1, out = [], completion = Inr JUndefined\<rparr>)))
      else \<lparr>state = s, out = [], completion = Inr JUndefined\<rparr>)"

text \<open>The handler of \<^verbatim>\<open>disconnect\<close>; an entry, being an object, is truthy.\<close>

definition disconnect :: "server \<Rightarrow> string \<Rightarrow> run" where
  "disconnect s sock =
     (case Map_get (gateways s) sock of
        None \<Rightarrow> \<lparr>state = s, out = [], completion = Inr JUndefined\<rparr>
      | Some g \<Rightarrow>
          \<lparr>state = s\<lparr>gateways := Map_delete (gateways s) sock\<rparr>,
           out = [ConsoleLog (LogDisconnect (siteName g)),
                  IoEmit ''gateway-disconnected'' [(''siteName'', siteName g)]],
           completion = Inr JUndefined\<rparr>)"

section \<open>The broadcast relay (broadcastToGateways)\<close>

text \<open>
  The body sent to one gateway: \<^verbatim>\<open>{...data, timestamp: Date.now(), fromCloud: true}\<close>.
  A property of \<^verbatim>\<open>data\<close> with one of the two names is overwritten.
\<close>

definition augment :: "jsdata \<Rightarrow> int \<Rightarrow> obj" where
  "augment data t =
     Map_set (Map_set (spread data) ''timestamp'' (JNum t)) ''fromCloud'' (JBool True)"

text \<open>
  The \<^verbatim>\<open>forEach\<close> loop, in the map's order.  \<^verbatim>\<open>gateway.socket.emit\<close> belongs to the
  transport library, not to this file: \<open>throws c\<close> says whether that call raises on the
  connection \<open>c\<close>.  The loop has no handler, so an exception ends it.  \<open>count\<close> is the
  loop's counter and \<open>sent\<close> the messages handed over so far; the body of the
  \<open>count\<close>-th iteration reads the clock once.
\<close>

fun forEach_emit ::
  "(string \<Rightarrow> bool) \<Rightarrow> clock \<Rightarrow> string \<Rightarrow> jsdata \<Rightarrow> gateway list \<Rightarrow> nat \<Rightarrow> effect list
    \<Rightarrow> nat \<times> effect list \<times> error option" where
  "forEach_emit throws clk event data [] count sent = (count, sent, None)"
| "forEach_emit throws clk event data (g # gs) count sent =
     (if throws (socket g) then (count, sent, Some EmitError)
      else forEach_emit throws clk event data gs (Suc count)
             (sent @ [SocketEmit (socket g) event (augment data (clk count))]))"

text \<open>The function has no \<^verbatim>\<open>return\<close> statement: it writes the count to the log.\<close>

definition broadcastToGateways ::
  "(string \<Rightarrow> bool) \<Rightarrow> server \<Rightarrow> clock \<Rightarrow> string \<Rightarrow> jsdata \<Rightarrow> run" where
  "broadcastToGateways throws s clk event data =
     (case forEach_emit throws clk event data (Map_values (gateways s)) 0 [] of
        (count, sent, None) \<Rightarrow>
          \<lparr>state = s, out = sent @ [ConsoleLog (LogBroadcast event count)],
           completion = Inr JUndefined\<rparr>
      | (count, sent, Some e) \<Rightarrow> \<lparr>state = s, out = sent, completion = Inl e\<rparr>)"

section \<open>Sequences of registry events\<close>

text \<open>
  The registry changes only through the three handlers, each run to completion on one
  event of one connection.  An event comes with the clock its handler reads.
\<close>

datatype op = Register string jsdata | Heartbeat string jsdata | Disconnect string

fun apply_op :: "server \<Rightarrow> clock \<times> op \<Rightarrow> server" where
  "apply_op s (clk, Register sock data) = state (register_gateway s clk sock data)"
| "apply_op s (clk, Heartbeat sock data) = state (heartbeat s clk sock data)"
| "apply_op s (clk, Disconnect sock) = state (disconnect s sock)"

definition run_ops :: "server \<Rightarrow> (clock \<times> op) list \<Rightarrow> server" where
  "run_ops s evs = foldl apply_op s evs"

text \<open>A device count that is an integer and not negative.\<close>

definition count_ok :: "jsval \<Rightarrow> bool" where
  "count_ok v = (case v of JNum n \<Rightarrow> 0 \<le> n | _ \<Rightarrow> False)"

definition counts_ok :: "server \<Rightarrow> bool" where
  "counts_ok s = list_all (\<lambda>g. count_ok (deviceCount g)) (Map_values (gateways s))"

text \<open>A payload whose \<^verbatim>\<open>deviceCount\<close> is absent or an integer that is not negative.\<close>

definition supplied_ok :: "jsdata \<Rightarrow> bool" where
  "supplied_ok data =
     (case data of
        DUndefined \<Rightarrow> True
      | DObject d \<Rightarrow>
          get_prop d ''deviceCount'' = JUndefined \<or> count_ok (get_prop d ''deviceCount''))"

fun op_ok :: "op \<Rightarrow> bool" where
  "op_ok (Register sock data) = supplied_ok data"
| "op_ok (Heartbeat sock data) = supplied_ok data"
| "op_ok (Disconnect sock) = True"

section \<open>Example states\<close>

definition site_A :: server where
  "site_A = state (register_gateway constructor (\<lambda>n. 1000 + int n) ''gw1''
               (DObject [(''siteName'', JStr ''SiteA''), (''deviceCount'', JNum 3)]))"

definition two_sites :: server where
  "two_sites = state (register_gateway site_A (\<lambda>n. 2000 + int n) ''gw2''
                  (DObject [(''deviceCount'', JNum 7)]))"

section \<open>Facts about maps and splitting\<close>

lemma split_not_Nil: "split sep s \<noteq> []"
  by (induction s) (simp_all add: Let_def)

lemma Map_get_set: "Map_get (Map_set m k v) k' = (if k' = k then Some v else Map_get m k')"
  by (induction m) auto

lemma Map_get_delete: "Map_get (Map_delete m k) k' = (if k' = k then None else Map_get m k')"
  by (induction m) auto

lemma Map_delete_absent: "Map_get m k = None \<Longrightarrow> Map_delete m k = m"
  by (induction m) (auto split: if_splits)

lemma Map_get_None_iff: "Map_get m k = None \<longleftrightarrow> k \<notin> set (Map_keys m)"
  by (induction m) (force simp: Map_keys_def split: if_splits)+

lemma Map_keys_set:
  "Map_keys (Map_set m k v) = (if Map_get m k = None then Map_keys m @ [k] else Map_keys m)"
  by (induction m) (auto simp: Map_keys_def split: if_splits)

lemma Map_keys_delete: "Map_keys (Map_delete m k) = removeAll k (Map_keys m)"
  by (induction m) (auto simp: Map_keys_def)

lemma distinct_Map_set: "distinct (Map_keys m) \<Longrightarrow> distinct (Map_keys (Map_set m k v))"
  by (simp add: Map_keys_set Map_get_None_iff)

lemma distinct_Map_delete: "distinct (Map_keys m) \<Longrightarrow> distinct (Map_keys (Map_delete m k))"
  by (simp add: Map_keys_delete distinct_removeAll)

lemma Map_set_set: "Map_set (Map_set m k v) k w = Map_set m k w"
  by (induction m) auto

lemma Map_size_set:
  "Map_size (Map_set m k v) = (if Map_get m k = None then Suc (Map_size m) else Map_size m)"
  by (induction m) (auto simp: Map_size_def split: if_splits)

lemma filter_key_absent: "Map_get m k = None \<Longrightarrow> filter (\<lambda>e. fst e = k) m = []"
  by (induction m) (auto split: if_splits)

lemma Map_set_entries:
  "distinct (Map_keys m) \<Longrightarrow> filter (\<lambda>e. fst e = k) (Map_set m k v) = [(k, v)]"
proof (induction m)
  case Nil
  show ?case by simp
next
  case (Cons e m)
  obtain k' v' where e: "e = (k', v')" by (cases e)
  from Cons.prems have d: "distinct (Map_keys m)" and n: "k' \<notin> set (Map_keys m)"
    by (simp_all add: Map_keys_def e)
  show ?case
  proof (cases "k' = k")
    case True
    with n have "Map_get m k = None" by (simp add: Map_get_None_iff)
    then show ?thesis using True by (simp add: e filter_key_absent)
  next
    case False
    then show ?thesis using Cons.IH [OF d] by (simp add: e)
  qed
qed

lemma split_last_no_sep: "sep \<notin> set (last (split sep s))"
proof (induction s)
  case Nil
  show ?case by simp
next
  case (Cons c s)
  have ne: "split sep s \<noteq> []" by (rule split_not_Nil)
  then obtain w ws where r: "split sep s = w # ws" by (cases "split sep s") auto
  show ?case using Cons.IH by (cases ws) (auto simp: r Let_def)
qed

lemma split_join:
  "concat (map (\<lambda>w. w @ [sep]) (butlast (split sep s))) @ last (split sep s) = s"
proof (induction s)
  case Nil
  show ?case by simp
next
  case (Cons c s)
  obtain w ws where r: "split sep s = w # ws" using split_not_Nil [of sep s]
    by (cases "split sep s") auto
  have sc: "split sep (c # s) = (if c = sep then [] # w # ws else (c # w) # ws)"
    by (simp add: r Let_def)
  from Cons.IH have ih: "concat (map (\<lambda>w. w @ [sep]) (butlast (w # ws))) @ last (w # ws) = s"
    by (simp only: r)
  show ?case
  proof (cases ws)
    case Nil
    with ih show ?thesis unfolding sc by auto
  next
    case (Cons a as)
    with ih show ?thesis unfolding sc by auto
  qed
qed

lemma concat_sep_last:
  "concat (map (\<lambda>w. w @ [sep]) ws) = [] \<or> last (concat (map (\<lambda>w. w @ [sep]) ws)) = sep"
  by (induction ws rule: rev_induct) auto

text \<open>
  The keys of the registry stay distinct along every sequence of events, as the keys of
  a Map are.
\<close>

lemma distinct_keys_apply_op:
  "distinct (Map_keys (gateways s)) \<Longrightarrow> distinct (Map_keys (gateways (apply_op s ev)))"
proof (cases ev)
  case (Pair clk x)
  assume d: "distinct (Map_keys (gateways s))"
  show ?thesis
  proof (cases x)
    case (Register sock data)
    with Pair d show ?thesis
      by (cases data) (simp_all add: register_gateway_def distinct_Map_set)
  next
    case (Heartbeat sock data)
    with Pair d show ?thesis
      by (cases data)
        (auto simp: heartbeat_def Let_def distinct_Map_set split: option.splits)
  next
    case (Disconnect sock)
    with Pair d show ?thesis
      by (simp add: disconnect_def distinct_Map_delete split: option.splits)
  qed
qed

lemma distinct_keys_run_ops:
  "distinct (Map_keys (gateways (run_ops constructor evs)))"
proof -
  have "distinct (Map_keys (gateways s)) \<Longrightarrow> distinct (Map_keys (gateways (foldl apply_op s evs)))"
    for s
    by (induction evs arbitrary: s) (simp_all add: distinct_keys_apply_op)
  then show ?thesis
    by (simp add: run_ops_def constructor_def Map_keys_def)
qed

section \<open>Facts about the broadcast loop\<close>

lemma forEach_emit_eq:
  "forEach_emit throws clk event data gs n sent =
     (let pre = takeWhile (\<lambda>g. \<not> throws (socket g)) gs in
      (n + length pre,
       sent @ map (\<lambda>(k, g). SocketEmit (socket g) event (augment data (clk k))) (enumerate n pre),
       if \<forall>g \<in> set gs. \<not> throws (socket g) then None else Some EmitError))"
proof (induction gs arbitrary: n sent)
  case Nil
  show ?case by simp
next
  case (Cons g gs)
  show ?case
  proof (cases "throws (socket g)")
    case True
    then show ?thesis by simp
  next
    case False
    then show ?thesis by (simp add: Cons.IH Let_def)
  qed
qed

lemma broadcast_eq:
  "broadcastToGateways throws s clk event data =
     (let gs = Map_values (gateways s);
          pre = takeWhile (\<lambda>g. \<not> throws (socket g)) gs;
          sent = map (\<lambda>(k, g). SocketEmit (socket g) event (augment data (clk k))) (enumerate 0 pre)
      in if \<forall>g \<in> set gs. \<not> throws (socket g)
         then \<lparr>state = s, out = sent @ [ConsoleLog (LogBroadcast event (length pre))],
               completion = Inr JUndefined\<rparr>
         else \<lparr>state = s, out = sent, completion = Inl EmitError\<rparr>)"
  by (simp add: broadcastToGateways_def forEach_emit_eq Let_def)

lemma takeWhile_all: "\<forall>x\<in>set xs. P x \<Longrightarrow> takeWhile P xs = xs"
  by simp

lemma get_prop_set: "get_prop (Map_set d k v) k' = (if k' = k then v else get_prop d k')"
  by (simp add: get_prop_def Map_get_set)

lemma augment_props:
  "get_prop (augment data t) k =
     (if k = ''fromCloud'' then JBool True
      else if k = ''timestamp'' then JNum t else get_prop (spread data) k)"
  by (simp add: augment_def get_prop_set)

section \<open>The broadcast relay\<close>

text \<open>
  C1, as the code has it.  When \<^verbatim>\<open>emit\<close> raises for none of the registered gateways,
  \<open>broadcastToGateways\<close> hands one message to the connection of every entry of the
  registry, in the registry's order; the body of each message is the payload with
  \<^verbatim>\<open>timestamp\<close> set to the clock's reading for that recipient and \<^verbatim>\<open>fromCloud\<close> set to
  \<^verbatim>\<open>true\<close>, every other property of the payload kept.  The number of recipients, which
  is the size of the registry, is written to the log; the call itself returns
  \<^verbatim>\<open>undefined\<close>, and the registry is left as it was.
\<close>

theorem c1_broadcast_fanout:
  assumes "\<forall>g \<in> set (Map_values (gateways s)). \<not> throws (socket g)"
  shows "out (broadcastToGateways throws s clk event data) =
           map (\<lambda>(k, g). SocketEmit (socket g) event (augment data (clk k)))
             (enumerate 0 (Map_values (gateways s)))
           @ [ConsoleLog (LogBroadcast event (Map_size (gateways s)))]
         \<and> completion (broadcastToGateways throws s clk event data) = Inr JUndefined
         \<and> state (broadcastToGateways throws s clk event data) = s
         \<and> get_prop (augment data t) ''timestamp'' = JNum t
         \<and> get_prop (augment data t) ''fromCloud'' = JBool True
         \<and> (\<forall>k. k \<noteq> ''timestamp'' \<and> k \<noteq> ''fromCloud''
                \<longrightarrow> get_prop (augment data t) k = get_prop (spread data) k)"
proof -
  have tw: "takeWhile (\<lambda>g. \<not> throws (socket g)) (Map_values (gateways s))
      = Map_values (gateways s)"
    using assms by (rule takeWhile_all)
  have len: "length (Map_values (gateways s)) = Map_size (gateways s)"
    by (simp add: Map_values_def Map_size_def)
  show ?thesis
    unfolding broadcast_eq Let_def tw len using assms by (simp add: augment_props)
qed

theorem c1_broadcast_fanout_witness:
  "out (broadcastToGateways (\<lambda>c. False) two_sites (\<lambda>n. 5000 + int n) ''cloud-message''
         (DObject [(''message'', JStr ''hi'')])) =
     [SocketEmit ''gw1'' ''cloud-message''
        [(''message'', JStr ''hi''), (''timestamp'', JNum 5000), (''fromCloud'', JBool True)],
      SocketEmit ''gw2'' ''cloud-message''
        [(''message'', JStr ''hi''), (''timestamp'', JNum 5001), (''fromCloud'', JBool True)],
      ConsoleLog (LogBroadcast ''cloud-message'' 2)]
   \<and> completion (broadcastToGateways (\<lambda>c. False) two_sites (\<lambda>n. 5000 + int n) ''cloud-message''
         (DObject [(''message'', JStr ''hi'')])) = Inr JUndefined"
  using c1_broadcast_fanout [of two_sites "\<lambda>c. False" "\<lambda>n. 5000 + int n" "''cloud-message''"
      "DObject [(''message'', JStr ''hi'')]" 0]
  by (simp add: two_sites_def site_A_def constructor_def register_gateway_def Map_values_def
      Map_size_def augment_def enumerate_eq_zip upt_rec)

text \<open>
  C1 as the specification words it does not hold: with one registered gateway the call
  returns \<^verbatim>\<open>undefined\<close>, not 1.
\<close>

theorem c1_counterexample:
  "Map_size (gateways site_A) = 1
   \<and> completion (broadcastToGateways (\<lambda>c. False) site_A (\<lambda>n. 5000 + int n) ''cloud-message''
        (DObject [(''message'', JStr ''hi'')])) = Inr JUndefined
   \<and> completion (broadcastToGateways (\<lambda>c. False) site_A (\<lambda>n. 5000 + int n) ''cloud-message''
        (DObject [(''message'', JStr ''hi'')])) \<noteq> Inr (JNum 1)"
  by (simp add: site_A_def constructor_def register_gateway_def broadcastToGateways_def
      Map_values_def Map_size_def)

section \<open>The stream tracker\<close>

text \<open>
  C3, as the code has it.  \<open>donePublish\<close> for a stream key that has no entry leaves the
  state as it was, and still emits \<^verbatim>\<open>stream-ended\<close> with the key and the time: the
  handler emits whether or not an entry was deleted.
\<close>

theorem c3_stop_without_start:
  assumes "Map_get (rtmpStreams s) (streamKey StreamPath) = None"
  shows "state (donePublish s clk i StreamPath) = s
         \<and> out (donePublish s clk i StreamPath) =
             [ConsoleLog (LogDonePublish StreamPath),
              IoEmit ''stream-ended''
                [(''streamKey'', JStr (streamKey StreamPath)), (''timestamp'', JNum (clk 0))]]
         \<and> completion (donePublish s clk i StreamPath) = Inr JUndefined"
  using assms by (simp add: donePublish_def Let_def Map_delete_absent)

theorem c3_stop_without_start_witness:
  "state (donePublish constructor (\<lambda>n. 5000 + int n) ''s1'' ''live/cam-07'') = constructor
   \<and> out (donePublish constructor (\<lambda>n. 5000 + int n) ''s1'' ''live/cam-07'') =
       [ConsoleLog (LogDonePublish ''live/cam-07''),
        IoEmit ''stream-ended'' [(''streamKey'', JStr ''cam-07''), (''timestamp'', JNum 5000)]]"
  using c3_stop_without_start [of constructor "''live/cam-07''" "\<lambda>n. 5000 + int n" "''s1''"]
  by (simp add: constructor_def streamKey_def)

text \<open>
  C3 as the specification words it does not hold: on the empty tracker, a stop for
  \<^verbatim>\<open>live/cam-07\<close> emits \<^verbatim>\<open>stream-ended\<close>.
\<close>

theorem c3_counterexample:
  "Map_get (rtmpStreams constructor) (streamKey ''live/cam-07'') = None
   \<and> IoEmit ''stream-ended'' [(''streamKey'', JStr ''cam-07''), (''timestamp'', JNum 5000)]
       \<in> set (out (donePublish constructor (\<lambda>n. 5000 + int n) ''s1'' ''live/cam-07''))"
  by (simp add: constructor_def donePublish_def streamKey_def)

text \<open>
  C4.  The stream key is the last segment of the path between slashes: it contains no
  slash, and the path is the key itself or ends in a slash followed by the key; for
  \<^verbatim>\<open>live/cam-07\<close> it is \<^verbatim>\<open>cam-07\<close>.  Both handlers work with this key and with no
  other: \<open>prePublish\<close> writes the entry of exactly this key (appending the key when it is
  new) and emits \<^verbatim>\<open>stream-started\<close> carrying it; \<open>donePublish\<close> removes exactly this
  key and emits \<^verbatim>\<open>stream-ended\<close> carrying it; every other key of the tracker, and the
  registry, are left alone.  Nothing of this depends on the session id: the keys and the
  events are the same for any two ids, and a stop with another id removes the entry that
  a start with the same path made.
\<close>

theorem c4_streamKey:
  "CHR ''/'' \<notin> set (streamKey StreamPath)
   \<and> (\<exists>pre. StreamPath = pre @ streamKey StreamPath \<and> (pre = [] \<or> last pre = CHR ''/''))
   \<and> streamKey ''live/cam-07'' = ''cam-07''
   \<and> Map_get (rtmpStreams (state (prePublish s clk i StreamPath))) k
       = (if k = streamKey StreamPath
          then Some \<lparr>session_id = i, streamPath = StreamPath, startTime = clk 0, active = True\<rparr>
          else Map_get (rtmpStreams s) k)
   \<and> Map_keys (rtmpStreams (state (prePublish s clk i StreamPath)))
       = (if Map_get (rtmpStreams s) (streamKey StreamPath) = None
          then Map_keys (rtmpStreams s) @ [streamKey StreamPath]
          else Map_keys (rtmpStreams s))
   \<and> out (prePublish s clk i StreamPath)
       = [ConsoleLog (LogPrePublish StreamPath),
          IoEmit ''stream-started''
            [(''streamKey'', JStr (streamKey StreamPath)), (''streamPath'', JStr StreamPath),
             (''timestamp'', JNum (clk 1))]]
   \<and> Map_get (rtmpStreams (state (donePublish s clk i StreamPath))) k
       = (if k = streamKey StreamPath then None else Map_get (rtmpStreams s) k)
   \<and> Map_keys (rtmpStreams (state (donePublish s clk i StreamPath)))
       = removeAll (streamKey StreamPath) (Map_keys (rtmpStreams s))
   \<and> out (donePublish s clk i StreamPath)
       = [ConsoleLog (LogDonePublish StreamPath),
          IoEmit ''stream-ended''
            [(''streamKey'', JStr (streamKey StreamPath)), (''timestamp'', JNum (clk 0))]]
   \<and> gateways (state (prePublish s clk i StreamPath)) = gateways s
   \<and> gateways (state (donePublish s clk i StreamPath)) = gateways s
   \<and> Map_keys (rtmpStreams (state (prePublish s clk i StreamPath)))
       = Map_keys (rtmpStreams (state (prePublish s clk' i' StreamPath)))
   \<and> out (prePublish s clk i StreamPath) = out (prePublish s clk i' StreamPath)
   \<and> donePublish s clk i StreamPath = donePublish s clk i' StreamPath
   \<and> Map_get (rtmpStreams (state (donePublish (state (prePublish s clk i StreamPath))
                                     clk' i' StreamPath))) (streamKey StreamPath) = None"
proof -
  let ?pre = "concat (map (\<lambda>w. w @ [CHR ''/'']) (butlast (split (CHR ''/'') StreamPath)))"
  have "StreamPath = ?pre @ streamKey StreamPath"
    by (simp add: streamKey_def split_join)
  moreover have "?pre = [] \<or> last ?pre = CHR ''/''"
    by (rule concat_sep_last)
  ultimately have seg: "\<exists>pre. StreamPath = pre @ streamKey StreamPath
      \<and> (pre = [] \<or> last pre = CHR ''/'')"
    by blast
  have nosep: "CHR ''/'' \<notin> set (streamKey StreamPath)"
    by (simp add: streamKey_def split_last_no_sep)
  have ex: "streamKey ''live/cam-07'' = ''cam-07''"
    by (simp add: streamKey_def)
  have start:
    "Map_get (rtmpStreams (state (prePublish s clk i StreamPath))) k
       = (if k = streamKey StreamPath
          then Some \<lparr>session_id = i, streamPath = StreamPath, startTime = clk 0, active = True\<rparr>
          else Map_get (rtmpStreams s) k)"
    "Map_keys (rtmpStreams (state (prePublish s clk i StreamPath)))
       = (if Map_get (rtmpStreams s) (streamKey StreamPath) = None
          then Map_keys (rtmpStreams s) @ [streamKey StreamPath]
          else Map_keys (rtmpStreams s))"
    "out (prePublish s clk i StreamPath)
       = [ConsoleLog (LogPrePublish StreamPath),
          IoEmit ''stream-started''
            [(''streamKey'', JStr (streamKey StreamPath)), (''streamPath'', JStr StreamPath),
             (''timestamp'', JNum (clk 1))]]"
    "gateways (state (prePublish s clk i StreamPath)) = gateways s"
    by (simp_all add: prePublish_def Let_def Map_get_set Map_keys_set)
  have stop:
    "Map_get (rtmpStreams (state (donePublish s clk i StreamPath))) k
       = (if k = streamKey StreamPath then None else Map_get (rtmpStreams s) k)"
    "Map_keys (rtmpStreams (state (donePublish s clk i StreamPath)))
       = removeAll (streamKey StreamPath) (Map_keys (rtmpStreams s))"
    "out (donePublish s clk i StreamPath)
       = [ConsoleLog (LogDonePublish StreamPath),
          IoEmit ''stream-ended''
            [(''streamKey'', JStr (streamKey StreamPath)), (''timestamp'', JNum (clk 0))]]"
    "gateways (state (donePublish s clk i StreamPath)) = gateways s"
    by (simp_all add: donePublish_def Let_def Map_get_delete Map_keys_delete)
  have ids:
    "Map_keys (rtmpStreams (state (prePublish s clk i StreamPath)))
       = Map_keys (rtmpStreams (state (prePublish s clk' i' StreamPath)))"
    "out (prePublish s clk i StreamPath) = out (prePublish s clk i' StreamPath)"
    "donePublish s clk i StreamPath = donePublish s clk i' StreamPath"
    "Map_get (rtmpStreams (state (donePublish (state (prePublish s clk i StreamPath))
                                     clk' i' StreamPath))) (streamKey StreamPath) = None"
    by (simp_all add: prePublish_def donePublish_def Let_def Map_get_set Map_get_delete
        Map_keys_set)
  show ?thesis
    apply (intro conjI)
    using nosep seg ex start stop ids by blast+
qed

theorem c4_streamKey_witness:
  "streamKey ''/live/cam-1'' = ''cam-1''
   \<and> out (donePublish constructor (\<lambda>n. 5000 + int n) ''s2'' ''/live/cam-1'')
       = [ConsoleLog (LogDonePublish ''/live/cam-1''),
          IoEmit ''stream-ended'' [(''streamKey'', JStr ''cam-1''), (''timestamp'', JNum 5000)]]
   \<and> Map_keys (rtmpStreams (state (prePublish constructor (\<lambda>n. 5000 + int n) ''s1''
        ''/live/cam-1''))) = [''cam-1'']"
  using c4_streamKey [of "''/live/cam-1''" constructor "\<lambda>n. 5000 + int n" "''s1''" "''cam-1''"
      "\<lambda>n. 5000 + int n" "''s2''"]
  by (simp add: streamKey_def constructor_def Map_keys_def prePublish_def donePublish_def)

text \<open>
  C5.  On an empty tracker, a start followed at once by a stop with the same path leaves
  the tracker with no entry, whatever the session ids and the times.
\<close>

theorem c5_start_then_stop:
  assumes "rtmpStreams s = []"
  shows "Map_size (rtmpStreams (state (donePublish (state (prePublish s clk i StreamPath))
                                   clk' i' StreamPath))) = 0"
  using assms by (simp add: prePublish_def donePublish_def Let_def Map_size_def)

theorem c5_start_then_stop_witness:
  "rtmpStreams constructor = []
   \<and> Map_size (rtmpStreams (state (donePublish
        (state (prePublish constructor (\<lambda>n. 5000 + int n) ''s1'' ''live/cam-07''))
        (\<lambda>n. 6000 + int n) ''s1'' ''live/cam-07''))) = 0"
  using c5_start_then_stop [of constructor "\<lambda>n. 5000 + int n" "''s1''" "''live/cam-07''"
      "\<lambda>n. 6000 + int n" "''s1''"]
  by (simp add: constructor_def)

section \<open>The gateway registry\<close>

text \<open>
  C6.  In a registry with distinct keys, two registrations on the same connection, with
  any two payloads, leave exactly one entry for that connection, holding the values of
  the second registration; the registry has the size it had after the first, and the
  state is the one that the second registration alone would have given.
\<close>

theorem c6_register_twice:
  assumes "distinct (Map_keys (gateways s))"
  shows "(let s1 = state (register_gateway s clk1 sock (DObject d1));
              s2 = state (register_gateway s1 clk2 sock (DObject d2))
          in filter (\<lambda>e. fst e = sock) (gateways s2) =
               [(sock, \<lparr>gateway_id = sock,
                         siteName = js_or (get_prop d2 ''siteName'') (JStr unnamed_site),
                         connectedAt = clk2 0,
                         socket = sock,
                         deviceCount = js_or (get_prop d2 ''deviceCount'') (JNum 0),
                         lastHeartbeat = clk2 1\<rparr>)]
             \<and> Map_size (gateways s2) = Map_size (gateways s1)
             \<and> s2 = state (register_gateway s clk2 sock (DObject d2)))"
proof -
  have "distinct (Map_keys (Map_set (gateways s) sock v))" for v
    using assms by (rule distinct_Map_set)
  with assms show ?thesis
    by (simp add: register_gateway_def Let_def Map_set_entries Map_size_set Map_get_set
        Map_set_set)
qed

theorem c6_register_twice_witness:
  "distinct (Map_keys (gateways site_A))
   \<and> gateways (state (register_gateway
         (state (register_gateway site_A (\<lambda>n. 3000 + int n) ''gw1''
            (DObject [(''siteName'', JStr ''Old''), (''deviceCount'', JNum 1)])))
         (\<lambda>n. 4000 + int n) ''gw1''
         (DObject [(''siteName'', JStr ''New''), (''deviceCount'', JNum 2)])))
     = [(''gw1'', \<lparr>gateway_id = ''gw1'', siteName = JStr ''New'', connectedAt = 4000,
                   socket = ''gw1'', deviceCount = JNum 2, lastHeartbeat = 4001\<rparr>)]"
  using c6_register_twice [of site_A "\<lambda>n. 3000 + int n" "''gw1''"
      "[(''siteName'', JStr ''Old''), (''deviceCount'', JNum 1)]" "\<lambda>n. 4000 + int n"
      "[(''siteName'', JStr ''New''), (''deviceCount'', JNum 2)]"]
  by (simp add: site_A_def constructor_def register_gateway_def Map_keys_def get_prop_def
      js_or_def)

text \<open>
  C7.  \<open>disconnect\<close> on a registered connection emits \<^verbatim>\<open>gateway-disconnected\<close> with the
  site name of the entry, removes that entry and touches no other; on a connection that
  is not registered, and so also on one that it has just removed, it does nothing and
  emits nothing.
\<close>

theorem c7_unregister:
  "(\<forall>g. Map_get (gateways s) sock = Some g \<longrightarrow>
        out (disconnect s sock) =
          [ConsoleLog (LogDisconnect (siteName g)),
           IoEmit ''gateway-disconnected'' [(''siteName'', siteName g)]]
        \<and> Map_get (gateways (state (disconnect s sock))) sock = None
        \<and> (\<forall>k. k \<noteq> sock \<longrightarrow>
              Map_get (gateways (state (disconnect s sock))) k = Map_get (gateways s) k)
        \<and> rtmpStreams (state (disconnect s sock)) = rtmpStreams s
        \<and> completion (disconnect s sock) = Inr JUndefined)
   \<and> (Map_get (gateways s) sock = None \<longrightarrow>
        disconnect s sock = \<lparr>state = s, out = [], completion = Inr JUndefined\<rparr>)
   \<and> disconnect (state (disconnect s sock)) sock =
        \<lparr>state = state (disconnect s sock), out = [], completion = Inr JUndefined\<rparr>"
proof -
  have gone: "Map_get (gateways (state (disconnect s sock))) sock = None"
    by (cases "Map_get (gateways s) sock") (simp_all add: disconnect_def Map_get_delete)
  have again: "disconnect (state (disconnect s sock)) sock =
        \<lparr>state = state (disconnect s sock), out = [], completion = Inr JUndefined\<rparr>"
    using gone by (simp add: disconnect_def [of "state (disconnect s sock)"])
  show ?thesis
    using again by (simp add: disconnect_def [of s] Map_get_delete)
qed

theorem c7_unregister_witness:
  "Map_get (gateways two_sites) ''gw1'' =
     Some \<lparr>gateway_id = ''gw1'', siteName = JStr ''SiteA'', connectedAt = 1000,
           socket = ''gw1'', deviceCount = JNum 3, lastHeartbeat = 1001\<rparr>
   \<and> out (disconnect two_sites ''gw1'') =
       [ConsoleLog (LogDisconnect (JStr ''SiteA'')),
        IoEmit ''gateway-disconnected'' [(''siteName'', JStr ''SiteA'')]]
   \<and> Map_keys (gateways (state (disconnect two_sites ''gw1''))) = [''gw2'']
   \<and> Map_get (gateways two_sites) ''gw9'' = None
   \<and> disconnect two_sites ''gw9'' =
       \<lparr>state = two_sites, out = [], completion = Inr JUndefined\<rparr>"
  using c7_unregister [of two_sites "''gw1''"] c7_unregister [of two_sites "''gw9''"]
  by (simp add: two_sites_def site_A_def constructor_def register_gateway_def Map_keys_def
      disconnect_def get_prop_def js_or_def)

text \<open>
  C8.  \<open>heartbeat\<close> on a connection that is not registered changes nothing and raises
  nothing.  On a registered one, with a payload \<open>d\<close>, it sets \<^verbatim>\<open>lastHeartbeat\<close> to the
  time, sets \<^verbatim>\<open>deviceCount\<close> to the payload's when the payload has one and leaves it
  otherwise, leaves the other fields of the entry, every other entry, the order of the
  registry and the stream tracker as they were, and emits nothing.
\<close>

theorem c8_heartbeat_frame:
  "(Map_get (gateways s) sock = None \<longrightarrow>
      heartbeat s clk sock data = \<lparr>state = s, out = [], completion = Inr JUndefined\<rparr>)
   \<and> (\<forall>g. Map_get (gateways s) sock = Some g \<longrightarrow>
        Map_get (gateways (state (heartbeat s clk sock (DObject d)))) sock =
          Some (g\<lparr>lastHeartbeat := clk 0,
                  deviceCount := (if get_prop d ''deviceCount'' = JUndefined then deviceCount g
                                  else get_prop d ''deviceCount'')\<rparr>)
        \<and> (\<exists>g'. Map_get (gateways (state (heartbeat s clk sock (DObject d)))) sock = Some g'
              \<and> siteName g' = siteName g \<and> connectedAt g' = connectedAt g
              \<and> gateway_id g' = gateway_id g \<and> socket g' = socket g)
        \<and> (\<forall>k. k \<noteq> sock \<longrightarrow>
              Map_get (gateways (state (heartbeat s clk sock (DObject d)))) k
                = Map_get (gateways s) k)
        \<and> Map_keys (gateways (state (heartbeat s clk sock (DObject d)))) = Map_keys (gateways s)
        \<and> rtmpStreams (state (heartbeat s clk sock (DObject d))) = rtmpStreams s
        \<and> out (heartbeat s clk sock (DObject d)) = []
        \<and> completion (heartbeat s clk sock (DObject d)) = Inr JUndefined)"
  by (simp add: heartbeat_def Map_has_def Let_def Map_get_set Map_keys_set)

theorem c8_heartbeat_frame_witness:
  "Map_get (gateways two_sites) ''gw9'' = None
   \<and> heartbeat two_sites (\<lambda>n. 5000 + int n) ''gw9'' (DObject [(''deviceCount'', JNum 5)])
       = \<lparr>state = two_sites, out = [], completion = Inr JUndefined\<rparr>
   \<and> Map_get (gateways (state (heartbeat two_sites (\<lambda>n. 5000 + int n) ''gw1''
         (DObject [(''deviceCount'', JNum 5)])))) ''gw1''
       = Some \<lparr>gateway_id = ''gw1'', siteName = JStr ''SiteA'', connectedAt = 1000,
               socket = ''gw1'', deviceCount = JNum 5, lastHeartbeat = 5000\<rparr>
   \<and> Map_get (gateways (state (heartbeat two_sites (\<lambda>n. 5000 + int n) ''gw1''
         (DObject [])))) ''gw1''
       = Some \<lparr>gateway_id = ''gw1'', siteName = JStr ''SiteA'', connectedAt = 1000,
               socket = ''gw1'', deviceCount = JNum 3, lastHeartbeat = 5000\<rparr>"
  using c8_heartbeat_frame [of two_sites "''gw9''" "\<lambda>n. 5000 + int n"
      "DObject [(''deviceCount'', JNum 5)]" "[]"]
    c8_heartbeat_frame [of two_sites "''gw1''" "\<lambda>n. 5000 + int n" DUndefined
      "[(''deviceCount'', JNum 5)]"]
    c8_heartbeat_frame [of two_sites "''gw1''" "\<lambda>n. 5000 + int n" DUndefined "[]"]
  by (simp add: two_sites_def site_A_def constructor_def register_gateway_def get_prop_def
      js_or_def)

subsection \<open>Device counts along a sequence of events\<close>

lemma count_ok_js_or:
  "v = JUndefined \<or> count_ok v \<Longrightarrow> count_ok (js_or v (JNum 0))"
  by (cases v) (auto simp: count_ok_def js_or_def)

lemma counts_ok_set:
  "counts_ok s \<Longrightarrow> count_ok (deviceCount g) \<Longrightarrow>
   counts_ok (s\<lparr>gateways := Map_set (gateways s) k g\<rparr>)"
proof -
  have "list_all P (map snd m) \<Longrightarrow> P v \<Longrightarrow> list_all P (map snd (Map_set m k v))" for P m v
    by (induction m) auto
  then show "counts_ok s \<Longrightarrow> count_ok (deviceCount g) \<Longrightarrow>
      counts_ok (s\<lparr>gateways := Map_set (gateways s) k g\<rparr>)"
    by (simp add: counts_ok_def Map_values_def)
qed

lemma counts_ok_delete:
  "counts_ok s \<Longrightarrow> counts_ok (s\<lparr>gateways := Map_delete (gateways s) k\<rparr>)"
proof -
  have "list_all P (map snd m) \<Longrightarrow> list_all P (map snd (Map_delete m k))" for P m
    by (induction m) auto
  then show "counts_ok s \<Longrightarrow> counts_ok (s\<lparr>gateways := Map_delete (gateways s) k\<rparr>)"
    by (simp add: counts_ok_def Map_values_def)
qed

lemma counts_ok_get:
  "counts_ok s \<Longrightarrow> Map_get (gateways s) k = Some g \<Longrightarrow> count_ok (deviceCount g)"
proof -
  have "list_all P (map snd m) \<Longrightarrow> Map_get m k = Some g \<Longrightarrow> P g" for P m
    by (induction m) (auto split: if_splits)
  then show "counts_ok s \<Longrightarrow> Map_get (gateways s) k = Some g \<Longrightarrow> count_ok (deviceCount g)"
    by (simp add: counts_ok_def Map_values_def)
qed

lemma counts_ok_register:
  "counts_ok s \<Longrightarrow> supplied_ok data \<Longrightarrow> counts_ok (state (register_gateway s clk sock data))"
  by (cases data) (simp_all add: register_gateway_def supplied_ok_def counts_ok_set count_ok_js_or)

lemma counts_ok_heartbeat:
  assumes "counts_ok s" and "supplied_ok data"
  shows "counts_ok (state (heartbeat s clk sock data))"
proof (cases "Map_get (gateways s) sock")
  case None
  with assms show ?thesis by (simp add: heartbeat_def Map_has_def)
next
  case (Some g)
  with assms have g: "count_ok (deviceCount g)" by (simp add: counts_ok_get)
  show ?thesis
  proof (cases data)
    case DUndefined
    with Some g assms show ?thesis
      by (simp add: heartbeat_def Map_has_def Let_def counts_ok_set)
  next
    case (DObject d)
    with Some g assms show ?thesis
      by (auto simp: heartbeat_def Map_has_def Let_def supplied_ok_def intro!: counts_ok_set)
  qed
qed

lemma counts_ok_disconnect: "counts_ok s \<Longrightarrow> counts_ok (state (disconnect s sock))"
  by (cases "Map_get (gateways s) sock") (simp_all add: disconnect_def counts_ok_delete)

lemma counts_ok_apply_op:
  "counts_ok s \<Longrightarrow> op_ok (snd ev) \<Longrightarrow> counts_ok (apply_op s ev)"
proof (cases ev)
  case (Pair clk x)
  assume "counts_ok s" "op_ok (snd ev)"
  with Pair show ?thesis
    by (cases x) (simp_all add: counts_ok_register counts_ok_heartbeat counts_ok_disconnect)
qed

lemma counts_ok_run_ops:
  "counts_ok s \<Longrightarrow> list_all (\<lambda>ev. op_ok (snd ev)) evs \<Longrightarrow> counts_ok (run_ops s evs)"
  unfolding run_ops_def
  by (induction evs arbitrary: s) (simp_all add: counts_ok_apply_op)

text \<open>
  C9, as the code has it.  The handlers store the device count they are given without
  checking its sign.  After any sequence of registrations, heartbeats and disconnections,
  started from the empty registry, in which every payload's \<^verbatim>\<open>deviceCount\<close> is absent or
  an integer that is not negative, the device count of every entry is an integer that is
  not negative.
\<close>

theorem c9_counts_nonnegative:
  assumes "list_all (\<lambda>ev. op_ok (snd ev)) evs"
  shows "counts_ok (run_ops constructor evs)"
proof -
  have "counts_ok constructor"
    by (simp add: counts_ok_def constructor_def Map_values_def)
  then show ?thesis using assms by (rule counts_ok_run_ops)
qed

theorem c9_counts_nonnegative_witness:
  "list_all (\<lambda>ev. op_ok (snd ev))
     [(\<lambda>n. 1000 + int n, Register ''gw1'' (DObject [(''siteName'', JStr ''SiteA''), (''deviceCount'', JNum 3)])),
      (\<lambda>n. 2000 + int n, Heartbeat ''gw1'' (DObject [(''deviceCount'', JNum 5)])),
      (\<lambda>n. 3000 + int n, Register ''gw2'' (DObject [])),
      (\<lambda>n. 4000 + int n, Disconnect ''gw2'')]
   \<and> counts_ok (run_ops constructor
     [(\<lambda>n. 1000 + int n, Register ''gw1'' (DObject [(''siteName'', JStr ''SiteA''), (''deviceCount'', JNum 3)])),
      (\<lambda>n. 2000 + int n, Heartbeat ''gw1'' (DObject [(''deviceCount'', JNum 5)])),
      (\<lambda>n. 3000 + int n, Register ''gw2'' (DObject [])),
      (\<lambda>n. 4000 + int n, Disconnect ''gw2'')])
   \<and> Map_values (gateways (run_ops constructor
     [(\<lambda>n. 1000 + int n, Register ''gw1'' (DObject [(''siteName'', JStr ''SiteA''), (''deviceCount'', JNum 3)])),
      (\<lambda>n. 2000 + int n, Heartbeat ''gw1'' (DObject [(''deviceCount'', JNum 5)])),
      (\<lambda>n. 3000 + int n, Register ''gw2'' (DObject [])),
      (\<lambda>n. 4000 + int n, Disconnect ''gw2'')]))
     = [\<lparr>gateway_id = ''gw1'', siteName = JStr ''SiteA'', connectedAt = 1000,
         socket = ''gw1'', deviceCount = JNum 5, lastHeartbeat = 2000\<rparr>]"
  using c9_counts_nonnegative [of
     "[(\<lambda>n. 1000 + int n, Register ''gw1'' (DObject [(''siteName'', JStr ''SiteA''), (''deviceCount'', JNum 3)])),
      (\<lambda>n. 2000 + int n, Heartbeat ''gw1'' (DObject [(''deviceCount'', JNum 5)])),
      (\<lambda>n. 3000 + int n, Register ''gw2'' (DObject [])),
      (\<lambda>n. 4000 + int n, Disconnect ''gw2'')]"]
  by (simp add: supplied_ok_def count_ok_def get_prop_def run_ops_def constructor_def
      register_gateway_def heartbeat_def disconnect_def Map_has_def js_or_def Map_values_def)

text \<open>
  C9 as the specification words it does not hold for arbitrary integers: a registration
  with \<^verbatim>\<open>deviceCount\<close> -5 stores -5, and a heartbeat with -1 stores -1.
\<close>

theorem c9_counterexample:
  "\<not> counts_ok (run_ops constructor
       [(\<lambda>n. 1000 + int n,
         Register ''gw1'' (DObject [(''siteName'', JStr ''SiteA''), (''deviceCount'', JNum (- 5))]))])
   \<and> \<not> counts_ok (run_ops constructor
       [(\<lambda>n. 1000 + int n,
         Register ''gw1'' (DObject [(''siteName'', JStr ''SiteA''), (''deviceCount'', JNum 3)])),
        (\<lambda>n. 2000 + int n, Heartbeat ''gw1'' (DObject [(''deviceCount'', JNum (- 1))]))])"
  by (simp add: counts_ok_def count_ok_def get_prop_def run_ops_def constructor_def
      register_gateway_def heartbeat_def Map_has_def js_or_def Map_values_def)

text \<open>
  C10.  A registration whose payload has no \<^verbatim>\<open>siteName\<close> stores the default site name
  in the entry, yet the \<^verbatim>\<open>gateway-connected\<close> event of the same call carries
  \<^verbatim>\<open>undefined\<close> as \<^verbatim>\<open>siteName\<close>, not the default; its \<^verbatim>\<open>deviceCount\<close> is the
  payload's or 0, and 0 when the payload has none.
\<close>

theorem c10_register_without_siteName:
  assumes "get_prop d ''siteName'' = JUndefined"
  shows "Map_get (gateways (state (register_gateway s clk sock (DObject d)))) sock =
           Some \<lparr>gateway_id = sock, siteName = JStr unnamed_site, connectedAt = clk 0,
                 socket = sock,
                 deviceCount = js_or (get_prop d ''deviceCount'') (JNum 0),
                 lastHeartbeat = clk 1\<rparr>
         \<and> out (register_gateway s clk sock (DObject d)) =
             [ConsoleLog (LogRegister JUndefined),
              IoEmit ''gateway-connected''
                [(''siteName'', JUndefined),
                 (''deviceCount'', js_or (get_prop d ''deviceCount'') (JNum 0))]]
         \<and> JStr unnamed_site \<noteq> JUndefined
         \<and> (get_prop d ''deviceCount'' = JUndefined \<longrightarrow>
               js_or (get_prop d ''deviceCount'') (JNum 0) = JNum 0)"
  using assms by (simp add: register_gateway_def Map_get_set js_or_def)

theorem c10_register_without_siteName_witness:
  "get_prop [] ''siteName'' = JUndefined
   \<and> out (register_gateway constructor (\<lambda>n. 5000 + int n) ''gw1'' (DObject [])) =
       [ConsoleLog (LogRegister JUndefined),
        IoEmit ''gateway-connected'' [(''siteName'', JUndefined), (''deviceCount'', JNum 0)]]
   \<and> Map_get (gateways (state (register_gateway constructor (\<lambda>n. 5000 + int n) ''gw1''
        (DObject [])))) ''gw1'' =
       Some \<lparr>gateway_id = ''gw1'', siteName = JStr unnamed_site, connectedAt = 5000,
             socket = ''gw1'', deviceCount = JNum 0, lastHeartbeat = 5001\<rparr>"
  using c10_register_without_siteName [of "[]" constructor "\<lambda>n. 5000 + int n" "''gw1''"]
  by (simp add: get_prop_def js_or_def)

end
